theory Spec2Isabelle
  imports Main
begin

section \<open>Values, errors and the external layer of \<open>umbra-js/src/utils/ens.ts\<close>\<close>

text \<open>
  The file \<open>ens.ts\<close> is untyped towards its collaborators (they are loaded with
  \<open>require\<close>), so what a resolver read returns is an arbitrary JavaScript value.
  The values that matter to the code are modelled by \<open>jsval\<close>; \<open>truthy\<close> is
  JavaScript's \<open>ToBoolean\<close> on them (numbers are integers here, so \<open>NaN\<close> is left out).
\<close>

datatype jsval = JUndefined | JNull | JBool bool | JNum int | JStr string

fun truthy :: "jsval \<Rightarrow> bool" where
  "truthy JUndefined = False"
| "truthy JNull = False"
| "truthy (JBool b) = b"
| "truthy (JNum n) = (n \<noteq> 0)"
| "truthy (JStr s) = (s \<noteq> [])"

text \<open>Anything can be thrown; a rejected promise and a synchronous throw both become \<open>Inl\<close>.\<close>

datatype error = Thrown jsval

text \<open>The transaction object returned by \<open>setText\<close>: the code reads its \<open>hash\<close> and calls its \<open>wait\<close>.\<close>

record tx =
  hash :: string

text \<open>
  Everything \<open>ens.ts\<close> imports, as one record of operations. \<open>'p\<close> is the provider together
  with the chain it reaches (the state the awaited calls read and change), \<open>'c\<close> the contract
  object made by \<open>createContract\<close>, \<open>'a\<close> the ABI value loaded from \<open>PublicResolver.json\<close>.
  \<^item> \<open>ensNamehash_normalize\<close>, \<open>ensNamehash_hash\<close>: the two functions of the package
    \<open>eth-ens-namehash\<close>;
  \<^item> \<open>ENS_PUBLIC_RESOLVER\<close>: the address read from \<open>constants.json\<close>;
  \<^item> \<open>createContract\<close>: the function of \<open>../inner/contract\<close>;
  \<^item> \<open>contract_text\<close>, \<open>contract_setText\<close>: the contract methods \<open>text\<close> and \<open>setText\<close>;
  \<^item> \<open>tx_wait\<close>: the method \<open>wait\<close> of a transaction;
  \<^item> \<open>getPublicKeyFromSignature\<close>: the helper of \<open>./utils\<close>.
\<close>

record ('p, 'c, 'a) layer =
  ensNamehash_normalize :: "string \<Rightarrow> error + string"
  ensNamehash_hash :: "string \<Rightarrow> error + string"
  ENS_PUBLIC_RESOLVER :: string
  publicResolverAbi :: 'a
  createContract :: "string \<Rightarrow> 'a \<Rightarrow> 'p \<Rightarrow> error + 'c"
  contract_text :: "'c \<Rightarrow> string \<Rightarrow> string \<Rightarrow> 'p \<Rightarrow> (error + jsval) \<times> 'p"
  contract_setText :: "'c \<Rightarrow> string \<Rightarrow> string \<Rightarrow> string \<Rightarrow> 'p \<Rightarrow> (error + tx) \<times> 'p"
  tx_wait :: "tx \<Rightarrow> 'p \<Rightarrow> (error + unit) \<times> 'p"
  getPublicKeyFromSignature :: "jsval \<Rightarrow> error + jsval"

text \<open>
  The awaited calls are recorded, in order, in a trace carried beside the provider, so that
  which calls a function issues (and with which arguments) can be stated.
\<close>

datatype call =
    TextCall string string
  | SetTextCall string string string
  | WaitCall string
  | RecoverCall jsval

record 'p world =
  provider :: 'p
  trace :: "call list"

definition await_text ::
  "('p, 'c, 'a) layer \<Rightarrow> 'c \<Rightarrow> string \<Rightarrow> string \<Rightarrow> 'p world \<Rightarrow> (error + jsval) \<times> 'p world" where
  "await_text L c node key w =
     (case contract_text L c node key (provider w) of
        (r, p') \<Rightarrow> (r, \<lparr>provider = p', trace = trace w @ [TextCall node key]\<rparr>))"

definition await_setText ::
  "('p, 'c, 'a) layer \<Rightarrow> 'c \<Rightarrow> string \<Rightarrow> string \<Rightarrow> string \<Rightarrow> 'p world \<Rightarrow> (error + tx) \<times> 'p world" where
  "await_setText L c node key v w =
     (case contract_setText L c node key v (provider w) of
        (r, p') \<Rightarrow> (r, \<lparr>provider = p', trace = trace w @ [SetTextCall node key v]\<rparr>))"

definition await_wait ::
  "('p, 'c, 'a) layer \<Rightarrow> tx \<Rightarrow> 'p world \<Rightarrow> (error + unit) \<times> 'p world" where
  "await_wait L t w =
     (case tx_wait L t (provider w) of
        (r, p') \<Rightarrow> (r, \<lparr>provider = p', trace = trace w @ [WaitCall (hash t)]\<rparr>))"

definition await_getPublicKeyFromSignature ::
  "('p, 'c, 'a) layer \<Rightarrow> jsval \<Rightarrow> 'p world \<Rightarrow> (error + jsval) \<times> 'p world" where
  "await_getPublicKeyFromSignature L signature w =
     (getPublicKeyFromSignature L signature, w\<lparr>trace := trace w @ [RecoverCall signature]\<rparr>)"

text \<open>The calls added to the trace between two worlds.\<close>

definition issued :: "'p world \<Rightarrow> 'p world \<Rightarrow> call list" where
  "issued w w' = drop (length (trace w)) (trace w')"

fun is_read :: "call \<Rightarrow> bool" where
  "is_read (TextCall node key) = True"
| "is_read c = False"

fun is_write :: "call \<Rightarrow> bool" where
  "is_write (SetTextCall node key v) = True"
| "is_write c = False"

text \<open>How many resolver reads and resolver writes a list of calls holds.\<close>

definition reads :: "call list \<Rightarrow> nat" where
  "reads cs = length (filter is_read cs)"

definition writes :: "call list \<Rightarrow> nat" where
  "writes cs = length (filter is_write cs)"

section \<open>The functions of \<open>ens.ts\<close>\<close>

definition umbraKeySignature :: string where
  "umbraKeySignature = ''vnd.umbra-v0-signature''"

definition umbraKeyBytecode :: string where
  "umbraKeyBytecode = ''vnd.umbra-v0-bytecode''"

definition namehash :: "('p, 'c, 'a) layer \<Rightarrow> string \<Rightarrow> error + string" where
  "namehash L name =
     (case ensNamehash_normalize L name of
        Inl e \<Rightarrow> Inl e
      | Inr normalized \<Rightarrow> ensNamehash_hash L normalized)"

definition getSignature ::
  "('p, 'c, 'a) layer \<Rightarrow> string \<Rightarrow> 'p world \<Rightarrow> (error + jsval) \<times> 'p world" where
  "getSignature L name w =
     (case createContract L (ENS_PUBLIC_RESOLVER L) (publicResolverAbi L) (provider w) of
        Inl e \<Rightarrow> (Inl e, w)
      | Inr publicResolver \<Rightarrow>
          (case namehash L name of
             Inl e \<Rightarrow> (Inl e, w)
           | Inr node \<Rightarrow> await_text L publicResolver node umbraKeySignature w))"

definition getPublicKey ::
  "('p, 'c, 'a) layer \<Rightarrow> string \<Rightarrow> 'p world \<Rightarrow> (error + jsval) \<times> 'p world" where
  "getPublicKey L name w =
     (case getSignature L name w of
        (Inl e, w') \<Rightarrow> (Inl e, w')
      | (Inr signature, w') \<Rightarrow>
          if \<not> truthy signature then (Inr JUndefined, w')
          else await_getPublicKeyFromSignature L signature w')"

definition getBytecode ::
  "('p, 'c, 'a) layer \<Rightarrow> string \<Rightarrow> 'p world \<Rightarrow> (error + jsval) \<times> 'p world" where
  "getBytecode L name w =
     (case createContract L (ENS_PUBLIC_RESOLVER L) (publicResolverAbi L) (provider w) of
        Inl e \<Rightarrow> (Inl e, w)
      | Inr publicResolver \<Rightarrow>
          (case namehash L name of
             Inl e \<Rightarrow> (Inl e, w)
           | Inr node \<Rightarrow> await_text L publicResolver node umbraKeyBytecode w))"

definition setSignature ::
  "('p, 'c, 'a) layer \<Rightarrow> string \<Rightarrow> 'p world \<Rightarrow> string \<Rightarrow> (error + string) \<times> 'p world" where
  "setSignature L name w signature =
     (case createContract L (ENS_PUBLIC_RESOLVER L) (publicResolverAbi L) (provider w) of
        Inl e \<Rightarrow> (Inl e, w)
      | Inr publicResolver \<Rightarrow>
          (case namehash L name of
             Inl e \<Rightarrow> (Inl e, w)
           | Inr node \<Rightarrow>
               (case await_setText L publicResolver node umbraKeySignature signature w of
                  (Inl e, w1) \<Rightarrow> (Inl e, w1)
                | (Inr t, w1) \<Rightarrow>
                    (case await_wait L t w1 of
                       (Inl e, w2) \<Rightarrow> (Inl e, w2)
                     | (Inr u, w2) \<Rightarrow> (Inr (hash t), w2)))))"

text \<open>The contract object each of the four asynchronous functions starts by creating.\<close>

abbreviation publicResolver_of :: "('p, 'c, 'a) layer \<Rightarrow> 'p world \<Rightarrow> error + 'c" where
  "publicResolver_of L w \<equiv>
     createContract L (ENS_PUBLIC_RESOLVER L) (publicResolverAbi L) (provider w)"

section \<open>A resolver holding text records\<close>

text \<open>
  Modelled from the spec: the resolver contract behind \<open>createContract\<close> and the transport
  that reaches it are not part of \<open>ens.ts\<close>. The spec describes the resolver as a
  \<^emph>\<open>contract holding text records keyed by identifier and record name\<close>, a text record as a
  \<^emph>\<open>key/value string pair stored under a domain's hashed identifier\<close>, says that
  \<^emph>\<open>absence of a stored record is signaled as an "absent" result, not an error\<close>
  (\<open>undefined\<close> in the comments of \<open>ens.ts\<close>), and names an unreachable resolver as a failure
  raised by the transport. A write stores the record and answers with a transaction whose
  hash is given by \<open>txh\<close>; waiting for it changes nothing.
\<close>

record resolver =
  reachable :: bool
  records :: "(string \<times> string) \<rightharpoonup> string"

definition unreachable :: error where
  "unreachable = Thrown (JStr ''resolver unreachable'')"

definition resolver_text :: "unit \<Rightarrow> string \<Rightarrow> string \<Rightarrow> resolver \<Rightarrow> (error + jsval) \<times> resolver" where
  "resolver_text c node key r =
     (if \<not> reachable r then (Inl unreachable, r)
      else case records r (node, key) of
             None \<Rightarrow> (Inr JUndefined, r)
           | Some v \<Rightarrow> (Inr (JStr v), r))"

definition resolver_setText ::
  "(string \<Rightarrow> string \<Rightarrow> string \<Rightarrow> string) \<Rightarrow> unit \<Rightarrow> string \<Rightarrow> string \<Rightarrow> string \<Rightarrow> resolver
     \<Rightarrow> (error + tx) \<times> resolver" where
  "resolver_setText txh c node key v r =
     (if \<not> reachable r then (Inl unreachable, r)
      else (Inr \<lparr>hash = txh node key v\<rparr>, r\<lparr>records := (records r)((node, key) \<mapsto> v)\<rparr>))"

definition resolver_wait :: "tx \<Rightarrow> resolver \<Rightarrow> (error + unit) \<times> resolver" where
  "resolver_wait t r = (if \<not> reachable r then (Inl unreachable, r) else (Inr (), r))"

text \<open>
  The layer over such a resolver; the parts the spec leaves open (the two functions of the
  name-hashing package, the resolver's address, the key-recovery helper, the transaction
  hashes) stay parameters.
\<close>

definition resolver_layer ::
  "(string \<Rightarrow> error + string) \<Rightarrow> (string \<Rightarrow> error + string) \<Rightarrow> string \<Rightarrow> (jsval \<Rightarrow> error + jsval)
     \<Rightarrow> (string \<Rightarrow> string \<Rightarrow> string \<Rightarrow> string) \<Rightarrow> (resolver, unit, unit) layer" where
  "resolver_layer norm hsh addr recover txh =
     \<lparr>ensNamehash_normalize = norm,
      ensNamehash_hash = hsh,
      ENS_PUBLIC_RESOLVER = addr,
      publicResolverAbi = (),
      createContract = (\<lambda>address abi p. Inr ()),
      contract_text = resolver_text,
      contract_setText = resolver_setText txh,
      tx_wait = resolver_wait,
      getPublicKeyFromSignature = recover\<rparr>"

section \<open>The normalisation of names\<close>

text \<open>
  JavaScript's \<open>toLowerCase\<close> and \<open>toUpperCase\<close>, on the letters \<open>A\<close> to \<open>Z\<close> and \<open>a\<close> to
  \<open>z\<close>: two capitalisations of a name are two strings with the same \<open>toLowerCase\<close>.
\<close>

definition lower_char :: "char \<Rightarrow> char" where
  "lower_char c =
     (case map_of (zip ''ABCDEFGHIJKLMNOPQRSTUVWXYZ'' ''abcdefghijklmnopqrstuvwxyz'') c of
        Some l \<Rightarrow> l
      | None \<Rightarrow> c)"





section \<open>A sample layer\<close>

text \<open>
  A small concrete instance for the closed examples: names are lower-cased letter by letter
  and a name with a space is rejected (as the normalisation of the name-hashing package
  rejects characters that are not allowed in a domain); the hash and the transaction hash are
  tagged copies of their arguments, and a key is recovered (again as a tagged copy) from a
  string that starts with \<open>0x\<close> only.
\<close>

definition sample_normalize :: "string \<Rightarrow> error + string" where
  "sample_normalize name =
     (if CHR '' '' \<in> set name then Inl (Thrown (JStr ''Illegal char''))
      else Inr (map lower_char name))"


definition sample_hash :: "string \<Rightarrow> error + string" where
  "sample_hash normalized = Inr (''node:'' @ normalized)"

definition sample_recover :: "jsval \<Rightarrow> error + jsval" where
  "sample_recover v =
     (case v of
        JStr s \<Rightarrow>
          if take 2 s = ''0x'' then Inr (JStr (''key:'' @ s))
          else Inl (Thrown (JStr ''invalid signature''))
      | _ \<Rightarrow> Inl (Thrown (JStr ''invalid signature'')))"

definition sample_txh :: "string \<Rightarrow> string \<Rightarrow> string \<Rightarrow> string" where
  "sample_txh node key v = ''tx:'' @ node"

definition sample_layer :: "(resolver, unit, unit) layer" where
  "sample_layer =
     resolver_layer sample_normalize sample_hash ''0xresolver'' sample_recover sample_txh"

definition empty_world :: "resolver world" where
  "empty_world = \<lparr>provider = \<lparr>reachable = True, records = Map.empty\<rparr>, trace = []\<rparr>"

definition offline_world :: "resolver world" where
  "offline_world = \<lparr>provider = \<lparr>reachable = False, records = Map.empty\<rparr>, trace = []\<rparr>"

section \<open>The paths through the functions\<close>

lemma issued_append: "trace w' = trace w @ cs \<Longrightarrow> issued w w' = cs"
  by (simp add: issued_def)

lemma issued_same: "issued w w = []"
  by (simp add: issued_def)

lemma getSignature_no_contract:
  "publicResolver_of L w = Inl e \<Longrightarrow> getSignature L name w = (Inl e, w)"
  by (simp add: getSignature_def)

lemma getSignature_no_node:
  "publicResolver_of L w = Inr c \<Longrightarrow> namehash L name = Inl e \<Longrightarrow> getSignature L name w = (Inl e, w)"
  by (simp add: getSignature_def)

lemma getSignature_read:
  "publicResolver_of L w = Inr c \<Longrightarrow> namehash L name = Inr node \<Longrightarrow>
   contract_text L c node umbraKeySignature (provider w) = (r, p') \<Longrightarrow>
   getSignature L name w = (r, \<lparr>provider = p', trace = trace w @ [TextCall node umbraKeySignature]\<rparr>)"
  by (simp add: getSignature_def await_text_def)

lemma getBytecode_no_contract:
  "publicResolver_of L w = Inl e \<Longrightarrow> getBytecode L name w = (Inl e, w)"
  by (simp add: getBytecode_def)

lemma getBytecode_no_node:
  "publicResolver_of L w = Inr c \<Longrightarrow> namehash L name = Inl e \<Longrightarrow> getBytecode L name w = (Inl e, w)"
  by (simp add: getBytecode_def)

lemma getBytecode_read:
  "publicResolver_of L w = Inr c \<Longrightarrow> namehash L name = Inr node \<Longrightarrow>
   contract_text L c node umbraKeyBytecode (provider w) = (r, p') \<Longrightarrow>
   getBytecode L name w = (r, \<lparr>provider = p', trace = trace w @ [TextCall node umbraKeyBytecode]\<rparr>)"
  by (simp add: getBytecode_def await_text_def)

lemma setSignature_no_contract:
  "publicResolver_of L w = Inl e \<Longrightarrow> setSignature L name w signature = (Inl e, w)"
  by (simp add: setSignature_def)

lemma setSignature_no_node:
  "publicResolver_of L w = Inr c \<Longrightarrow> namehash L name = Inl e \<Longrightarrow>
   setSignature L name w signature = (Inl e, w)"
  by (simp add: setSignature_def)

lemma setSignature_write_fails:
  "publicResolver_of L w = Inr c \<Longrightarrow> namehash L name = Inr node \<Longrightarrow>
   contract_setText L c node umbraKeySignature signature (provider w) = (Inl e, p1) \<Longrightarrow>
   setSignature L name w signature =
     (Inl e, \<lparr>provider = p1, trace = trace w @ [SetTextCall node umbraKeySignature signature]\<rparr>)"
  by (simp add: setSignature_def await_setText_def)

lemma setSignature_wait_fails:
  "publicResolver_of L w = Inr c \<Longrightarrow> namehash L name = Inr node \<Longrightarrow>
   contract_setText L c node umbraKeySignature signature (provider w) = (Inr t, p1) \<Longrightarrow>
   tx_wait L t p1 = (Inl e, p2) \<Longrightarrow>
   setSignature L name w signature =
     (Inl e, \<lparr>provider = p2,
        trace = trace w @ [SetTextCall node umbraKeySignature signature, WaitCall (hash t)]\<rparr>)"
  by (simp add: setSignature_def await_setText_def await_wait_def)

lemma setSignature_written:
  "publicResolver_of L w = Inr c \<Longrightarrow> namehash L name = Inr node \<Longrightarrow>
   contract_setText L c node umbraKeySignature signature (provider w) = (Inr t, p1) \<Longrightarrow>
   tx_wait L t p1 = (Inr u, p2) \<Longrightarrow>
   setSignature L name w signature =
     (Inr (hash t), \<lparr>provider = p2,
        trace = trace w @ [SetTextCall node umbraKeySignature signature, WaitCall (hash t)]\<rparr>)"
  by (simp add: setSignature_def await_setText_def await_wait_def)

lemma getPublicKey_no_signature:
  "getSignature L name w = (Inl e, w') \<Longrightarrow> getPublicKey L name w = (Inl e, w')"
  by (simp add: getPublicKey_def)

lemma getPublicKey_falsy:
  "getSignature L name w = (Inr s, w') \<Longrightarrow> \<not> truthy s \<Longrightarrow>
   getPublicKey L name w = (Inr JUndefined, w')"
  by (simp add: getPublicKey_def)

lemma getPublicKey_recover:
  "getSignature L name w = (Inr s, w') \<Longrightarrow> truthy s \<Longrightarrow>
   getPublicKey L name w =
     (getPublicKeyFromSignature L s, w'\<lparr>trace := trace w' @ [RecoverCall s]\<rparr>)"
  by (simp add: getPublicKey_def await_getPublicKeyFromSignature_def)

text \<open>What each function adds to the trace, path by path.\<close>

lemma getSignature_issued:
  "issued w (snd (getSignature L name w)) =
     (case publicResolver_of L w of
        Inl e \<Rightarrow> []
      | Inr c \<Rightarrow> (case namehash L name of
                    Inl e \<Rightarrow> []
                  | Inr node \<Rightarrow> [TextCall node umbraKeySignature]))"
  by (simp add: getSignature_def await_text_def issued_def split: sum.splits prod.splits)

lemma getBytecode_issued:
  "issued w (snd (getBytecode L name w)) =
     (case publicResolver_of L w of
        Inl e \<Rightarrow> []
      | Inr c \<Rightarrow> (case namehash L name of
                    Inl e \<Rightarrow> []
                  | Inr node \<Rightarrow> [TextCall node umbraKeyBytecode]))"
  by (simp add: getBytecode_def await_text_def issued_def split: sum.splits prod.splits)

lemma getSignature_trace:
  "trace (snd (getSignature L name w)) = trace w @ issued w (snd (getSignature L name w))"
  by (simp add: getSignature_def await_text_def issued_def split: sum.splits prod.splits)

lemma getPublicKey_issued:
  "issued w (snd (getPublicKey L name w)) =
     issued w (snd (getSignature L name w)) @
     (case fst (getSignature L name w) of
        Inl e \<Rightarrow> []
      | Inr s \<Rightarrow> if truthy s then [RecoverCall s] else [])"
proof (cases "getSignature L name w")
  case (Pair r w')
  with getSignature_trace [of L name w] have t: "trace w' = trace w @ issued w w'" by simp
  show ?thesis
  proof (cases r)
    case (Inl e)
    with Pair show ?thesis by (simp add: getPublicKey_def)
  next
    case (Inr s)
    show ?thesis
    proof (cases "truthy s")
      case True
      with Pair Inr have "trace (snd (getPublicKey L name w)) = trace w' @ [RecoverCall s]"
        by (simp add: getPublicKey_recover)
      with t have "trace (snd (getPublicKey L name w)) = trace w @ (issued w w' @ [RecoverCall s])"
        by simp
      then have "issued w (snd (getPublicKey L name w)) = issued w w' @ [RecoverCall s]"
        by (rule issued_append)
      with Pair Inr True show ?thesis by simp
    next
      case False
      with Pair Inr show ?thesis by (simp add: getPublicKey_falsy)
    qed
  qed
qed

lemma setSignature_issued:
  "issued w (snd (setSignature L name w signature)) =
     (case publicResolver_of L w of
        Inl e \<Rightarrow> []
      | Inr c \<Rightarrow>
          (case namehash L name of
             Inl e \<Rightarrow> []
           | Inr node \<Rightarrow>
               (case fst (contract_setText L c node umbraKeySignature signature (provider w)) of
                  Inl e \<Rightarrow> [SetTextCall node umbraKeySignature signature]
                | Inr t \<Rightarrow> [SetTextCall node umbraKeySignature signature, WaitCall (hash t)])))"
proof (cases "publicResolver_of L w")
  case (Inl e)
  then show ?thesis by (simp add: setSignature_no_contract issued_same)
next
  case c: (Inr c)
  show ?thesis
  proof (cases "namehash L name")
    case (Inl e)
    with c show ?thesis by (simp add: setSignature_no_node issued_same)
  next
    case n: (Inr node)
    obtain r p1 where s: "contract_setText L c node umbraKeySignature signature (provider w) = (r, p1)"
      by (cases "contract_setText L c node umbraKeySignature signature (provider w)")
    show ?thesis
    proof (cases r)
      case (Inl e)
      with c n s show ?thesis by (simp add: setSignature_write_fails issued_def)
    next
      case t: (Inr t)
      obtain r2 p2 where k: "tx_wait L t p1 = (r2, p2)" by (cases "tx_wait L t p1")
      show ?thesis
      proof (cases r2)
        case (Inl e)
        with c n s t k show ?thesis by (simp add: setSignature_wait_fails issued_def)
      next
        case (Inr u)
        with c n s t k show ?thesis by (simp add: setSignature_written issued_def)
      qed
    qed
  qed
qed


section \<open>Properties\<close>











lemmas sample_defs = sample_layer_def resolver_layer_def sample_normalize_def sample_hash_def
  sample_recover_def sample_txh_def lower_char_def empty_world_def

lemma sample_namehash: "namehash sample_layer ''MyName.ETH'' = Inr ''node:myname.eth''"
  by (simp add: namehash_def sample_defs)

lemma sample_namehash_malformed: "namehash sample_layer ''my name.eth'' = Inl (Thrown (JStr ''Illegal char''))"
  by (simp add: namehash_def sample_defs)

lemma sample_contract: "publicResolver_of sample_layer w = Inr ()"
  by (simp add: sample_defs)

lemma trace_empty_world: "trace empty_world = []"
  by (simp add: empty_world_def)

lemma sample_text_empty:
  "contract_text sample_layer c node key (provider empty_world)
     = (Inr JUndefined, \<lparr>reachable = True, records = Map.empty\<rparr>)"
  by (simp add: sample_defs resolver_text_def)

lemma sample_getSignature:
  "getSignature sample_layer ''MyName.ETH'' empty_world =
     (Inr JUndefined,
      \<lparr>provider = \<lparr>reachable = True, records = Map.empty\<rparr>,
       trace = [TextCall ''node:myname.eth'' ''vnd.umbra-v0-signature'']\<rparr>)"
  using getSignature_read [OF sample_contract sample_namehash sample_text_empty]
  by (simp add: empty_world_def umbraKeySignature_def)

lemma sample_getBytecode:
  "getBytecode sample_layer ''MyName.ETH'' empty_world =
     (Inr JUndefined,
      \<lparr>provider = \<lparr>reachable = True, records = Map.empty\<rparr>,
       trace = [TextCall ''node:myname.eth'' ''vnd.umbra-v0-bytecode'']\<rparr>)"
  using getBytecode_read [OF sample_contract sample_namehash sample_text_empty]
  by (simp add: empty_world_def umbraKeyBytecode_def)

lemma sample_setText:
  "contract_setText sample_layer c ''node:myname.eth'' umbraKeySignature v (provider empty_world)
     = (Inr \<lparr>hash = ''tx:node:myname.eth''\<rparr>,
        \<lparr>reachable = True, records = [(''node:myname.eth'', ''vnd.umbra-v0-signature'') \<mapsto> v]\<rparr>)"
  by (simp add: sample_defs resolver_setText_def umbraKeySignature_def)

lemma sample_wait:
  "reachable r \<Longrightarrow> tx_wait sample_layer t r = (Inr (), r)"
  by (simp add: sample_defs resolver_wait_def)

lemma sample_setSignature:
  "setSignature sample_layer ''MyName.ETH'' empty_world v =
     (Inr ''tx:node:myname.eth'',
      \<lparr>provider = \<lparr>reachable = True,
         records = [(''node:myname.eth'', ''vnd.umbra-v0-signature'') \<mapsto> v]\<rparr>,
       trace = [SetTextCall ''node:myname.eth'' ''vnd.umbra-v0-signature'' v,
                WaitCall ''tx:node:myname.eth'']\<rparr>)"
  using setSignature_written [OF sample_contract sample_namehash sample_setText sample_wait]
  by (simp add: empty_world_def umbraKeySignature_def)

text \<open>
  C5. Whatever the layer does, every call that \<open>getSignature\<close> issues is a resolver read
  of the key \<open>vnd.umbra-v0-signature\<close> under \<open>namehash name\<close>, every call that
  \<open>getBytecode\<close> issues is a resolver read of the key \<open>vnd.umbra-v0-bytecode\<close> under
  \<open>namehash name\<close>, and every call that \<open>setSignature\<close> issues is either a resolver
  write of the signature under the key \<open>vnd.umbra-v0-signature\<close> and \<open>namehash name\<close>,
  or the wait for a transaction: no other key and no other identifier reaches the resolver.
\<close>

theorem resolver_calls_keyed:
  "(\<forall>c\<in>set (issued w (snd (getSignature L name w))).
      \<exists>node. namehash L name = Inr node \<and> c = TextCall node ''vnd.umbra-v0-signature'')
   \<and> (\<forall>c\<in>set (issued w (snd (getBytecode L name w))).
      \<exists>node. namehash L name = Inr node \<and> c = TextCall node ''vnd.umbra-v0-bytecode'')
   \<and> (\<forall>c\<in>set (issued w (snd (setSignature L name w signature))).
      \<exists>node. namehash L name = Inr node \<and>
        (c = SetTextCall node ''vnd.umbra-v0-signature'' signature \<or> (\<exists>h. c = WaitCall h)))"
proof (intro conjI ballI)
  fix c assume "c \<in> set (issued w (snd (getSignature L name w)))"
  then show "\<exists>node. namehash L name = Inr node \<and> c = TextCall node ''vnd.umbra-v0-signature''"
    by (auto simp add: getSignature_issued umbraKeySignature_def split: sum.splits)
next
  fix c assume "c \<in> set (issued w (snd (getBytecode L name w)))"
  then show "\<exists>node. namehash L name = Inr node \<and> c = TextCall node ''vnd.umbra-v0-bytecode''"
    by (auto simp add: getBytecode_issued umbraKeyBytecode_def split: sum.splits)
next
  fix c assume c: "c \<in> set (issued w (snd (setSignature L name w signature)))"
  show "\<exists>node. namehash L name = Inr node \<and>
        (c = SetTextCall node ''vnd.umbra-v0-signature'' signature \<or> (\<exists>h. c = WaitCall h))"
  proof (cases "publicResolver_of L w")
    case (Inl e)
    with c show ?thesis by (simp add: setSignature_issued)
  next
    case r: (Inr r)
    show ?thesis
    proof (cases "namehash L name")
      case (Inl e)
      with c r show ?thesis by (simp add: setSignature_issued)
    next
      case (Inr node)
      with c r show ?thesis
        by (cases "fst (contract_setText L r node umbraKeySignature signature (provider w))")
          (auto simp add: setSignature_issued umbraKeySignature_def)
    qed
  qed
qed

theorem resolver_calls_keyed_witness:
  "issued empty_world (snd (getSignature sample_layer ''MyName.ETH'' empty_world))
     = [TextCall ''node:myname.eth'' ''vnd.umbra-v0-signature'']
   \<and> (\<exists>node. namehash sample_layer ''MyName.ETH'' = Inr node \<and>
         TextCall ''node:myname.eth'' ''vnd.umbra-v0-signature'' = TextCall node ''vnd.umbra-v0-signature'')
   \<and> issued empty_world (snd (getBytecode sample_layer ''MyName.ETH'' empty_world))
     = [TextCall ''node:myname.eth'' ''vnd.umbra-v0-bytecode'']
   \<and> (\<exists>node. namehash sample_layer ''MyName.ETH'' = Inr node \<and>
         TextCall ''node:myname.eth'' ''vnd.umbra-v0-bytecode'' = TextCall node ''vnd.umbra-v0-bytecode'')
   \<and> issued empty_world (snd (setSignature sample_layer ''MyName.ETH'' empty_world ''0xabc''))
     = [SetTextCall ''node:myname.eth'' ''vnd.umbra-v0-signature'' ''0xabc'',
        WaitCall ''tx:node:myname.eth'']
   \<and> (\<exists>node. namehash sample_layer ''MyName.ETH'' = Inr node \<and>
         SetTextCall ''node:myname.eth'' ''vnd.umbra-v0-signature'' ''0xabc''
           = SetTextCall node ''vnd.umbra-v0-signature'' ''0xabc'')"
proof -
  let ?L = sample_layer and ?n = "''MyName.ETH''" and ?w = empty_world
  have g: "issued ?w (snd (getSignature ?L ?n ?w)) = [TextCall ''node:myname.eth'' ''vnd.umbra-v0-signature'']"
    by (simp add: sample_getSignature issued_def trace_empty_world)
  have b: "issued ?w (snd (getBytecode ?L ?n ?w)) = [TextCall ''node:myname.eth'' ''vnd.umbra-v0-bytecode'']"
    by (simp add: sample_getBytecode issued_def trace_empty_world)
  have s: "issued ?w (snd (setSignature ?L ?n ?w ''0xabc''))
             = [SetTextCall ''node:myname.eth'' ''vnd.umbra-v0-signature'' ''0xabc'',
                WaitCall ''tx:node:myname.eth'']"
    by (simp add: sample_setSignature issued_def trace_empty_world)
  note k = resolver_calls_keyed [of ?w ?L ?n "''0xabc''"]
  from k g have 1: "\<exists>node. namehash ?L ?n = Inr node \<and>
         TextCall ''node:myname.eth'' ''vnd.umbra-v0-signature'' = TextCall node ''vnd.umbra-v0-signature''"
    by simp
  from k b have 2: "\<exists>node. namehash ?L ?n = Inr node \<and>
         TextCall ''node:myname.eth'' ''vnd.umbra-v0-bytecode'' = TextCall node ''vnd.umbra-v0-bytecode''"
    by simp
  from k s have 3: "\<exists>node. namehash ?L ?n = Inr node \<and>
         SetTextCall ''node:myname.eth'' ''vnd.umbra-v0-signature'' ''0xabc''
           = SetTextCall node ''vnd.umbra-v0-signature'' ''0xabc''"
    by simp
  from g b s 1 2 3 show ?thesis by blast
qed

lemma setSignature_returned:
  assumes h: "fst (setSignature L name w signature) = Inr h"
  shows "\<exists>c node t p1 p2.
          publicResolver_of L w = Inr c \<and> namehash L name = Inr node \<and>
          contract_setText L c node umbraKeySignature signature (provider w) = (Inr t, p1) \<and>
          tx_wait L t p1 = (Inr (), p2) \<and> h = hash t \<and>
          issued w (snd (setSignature L name w signature))
            = [SetTextCall node umbraKeySignature signature, WaitCall h]"
proof (cases "publicResolver_of L w")
  case (Inl e)
  with h show ?thesis by (simp add: setSignature_no_contract)
next
  case c: (Inr c)
  show ?thesis
  proof (cases "namehash L name")
    case (Inl e)
    with h c show ?thesis by (simp add: setSignature_no_node)
  next
    case n: (Inr node)
    obtain r p1 where s: "contract_setText L c node umbraKeySignature signature (provider w) = (r, p1)"
      by (cases "contract_setText L c node umbraKeySignature signature (provider w)")
    show ?thesis
    proof (cases r)
      case (Inl e)
      with h c n s show ?thesis by (simp add: setSignature_write_fails)
    next
      case t: (Inr t)
      obtain r2 p2 where k: "tx_wait L t p1 = (r2, p2)" by (cases "tx_wait L t p1")
      show ?thesis
      proof (cases r2)
        case (Inl e)
        with h c n s t k show ?thesis by (simp add: setSignature_wait_fails)
      next
        case (Inr u)
        with c n s t k have
          "setSignature L name w signature =
             (Inr (hash t), \<lparr>provider = p2,
                trace = trace w @ [SetTextCall node umbraKeySignature signature, WaitCall (hash t)]\<rparr>)"
          by (simp add: setSignature_written)
        with h c n s t k Inr show ?thesis by (simp add: issued_def)
      qed
    qed
  qed
qed

text \<open>
  C6. When the contract is created, the name hashes, the write \<open>setText\<close> answers with a
  transaction and waiting for that transaction succeeds, \<open>setSignature\<close> returns the hash
  of that very transaction, having issued the write and then the wait, in this order.
  Conversely \<open>setSignature\<close> returns a hash only on this path: whenever it returns one, it
  is the hash of the transaction its write produced and the wait for it has been issued
  (and has succeeded) before.
\<close>

theorem setSignature_returns_hash:
  "(publicResolver_of L w = Inr c \<and> namehash L name = Inr node \<and>
    contract_setText L c node umbraKeySignature signature (provider w) = (Inr t, p1) \<and>
    tx_wait L t p1 = (Inr u, p2)
    \<longrightarrow> setSignature L name w signature =
          (Inr (hash t),
           \<lparr>provider = p2,
            trace = trace w @ [SetTextCall node umbraKeySignature signature, WaitCall (hash t)]\<rparr>))
   \<and> (fst (setSignature L name w signature) = Inr h
    \<longrightarrow> (\<exists>c node t p1 p2.
          publicResolver_of L w = Inr c \<and> namehash L name = Inr node \<and>
          contract_setText L c node umbraKeySignature signature (provider w) = (Inr t, p1) \<and>
          tx_wait L t p1 = (Inr (), p2) \<and> h = hash t \<and>
          issued w (snd (setSignature L name w signature))
            = [SetTextCall node umbraKeySignature signature, WaitCall h]))"
proof (intro conjI impI)
  assume "publicResolver_of L w = Inr c \<and> namehash L name = Inr node \<and>
    contract_setText L c node umbraKeySignature signature (provider w) = (Inr t, p1) \<and>
    tx_wait L t p1 = (Inr u, p2)"
  then show "setSignature L name w signature =
          (Inr (hash t),
           \<lparr>provider = p2,
            trace = trace w @ [SetTextCall node umbraKeySignature signature, WaitCall (hash t)]\<rparr>)"
    by (simp add: setSignature_written)
next
  assume "fst (setSignature L name w signature) = Inr h"
  then show "\<exists>c node t p1 p2.
          publicResolver_of L w = Inr c \<and> namehash L name = Inr node \<and>
          contract_setText L c node umbraKeySignature signature (provider w) = (Inr t, p1) \<and>
          tx_wait L t p1 = (Inr (), p2) \<and> h = hash t \<and>
          issued w (snd (setSignature L name w signature))
            = [SetTextCall node umbraKeySignature signature, WaitCall h]"
    by (rule setSignature_returned)
qed

theorem setSignature_returns_hash_witness:
  "publicResolver_of sample_layer empty_world = Inr ()
   \<and> namehash sample_layer ''MyName.ETH'' = Inr ''node:myname.eth''
   \<and> setSignature sample_layer ''MyName.ETH'' empty_world ''0xabc'' =
       (Inr ''tx:node:myname.eth'',
        \<lparr>provider = \<lparr>reachable = True,
           records = [(''node:myname.eth'', ''vnd.umbra-v0-signature'') \<mapsto> ''0xabc'']\<rparr>,
         trace = [SetTextCall ''node:myname.eth'' ''vnd.umbra-v0-signature'' ''0xabc'',
                  WaitCall ''tx:node:myname.eth'']\<rparr>)"
proof -
  have w: "tx_wait sample_layer \<lparr>hash = ''tx:node:myname.eth''\<rparr>
             \<lparr>reachable = True, records = [(''node:myname.eth'', ''vnd.umbra-v0-signature'') \<mapsto> ''0xabc'']\<rparr>
           = (Inr (), \<lparr>reachable = True,
                records = [(''node:myname.eth'', ''vnd.umbra-v0-signature'') \<mapsto> ''0xabc'']\<rparr>)"
    by (simp add: sample_wait)
  from setSignature_returns_hash [THEN conjunct1, rule_format,
      OF conjI [OF sample_contract conjI [OF sample_namehash conjI [OF sample_setText w]]]]
    sample_contract [of empty_world] sample_namehash
  show ?thesis
    by (simp add: trace_empty_world umbraKeySignature_def)
qed

lemma namehash_error:
  "namehash L name = Inl e \<longleftrightarrow>
     ensNamehash_normalize L name = Inl e \<or>
     (\<exists>n. ensNamehash_normalize L name = Inr n \<and> ensNamehash_hash L n = Inl e)"
  by (simp add: namehash_def split: sum.splits)

lemma getSignature_error:
  "fst (getSignature L name w) = Inl e \<longleftrightarrow>
     publicResolver_of L w = Inl e \<or>
     (\<exists>c. publicResolver_of L w = Inr c \<and>
        (namehash L name = Inl e \<or>
         (\<exists>node. namehash L name = Inr node \<and>
            fst (contract_text L c node umbraKeySignature (provider w)) = Inl e)))"
  by (simp add: getSignature_def await_text_def split: sum.splits prod.splits)

lemma getBytecode_error:
  "fst (getBytecode L name w) = Inl e \<longleftrightarrow>
     publicResolver_of L w = Inl e \<or>
     (\<exists>c. publicResolver_of L w = Inr c \<and>
        (namehash L name = Inl e \<or>
         (\<exists>node. namehash L name = Inr node \<and>
            fst (contract_text L c node umbraKeyBytecode (provider w)) = Inl e)))"
  by (simp add: getBytecode_def await_text_def split: sum.splits prod.splits)

lemma getPublicKey_error:
  "fst (getPublicKey L name w) = Inl e \<longleftrightarrow>
     fst (getSignature L name w) = Inl e \<or>
     (\<exists>s. fst (getSignature L name w) = Inr s \<and> truthy s \<and>
        getPublicKeyFromSignature L s = Inl e)"
proof (cases "getSignature L name w")
  case (Pair r w')
  show ?thesis
  proof (cases r)
    case (Inl e')
    with Pair show ?thesis by (simp add: getPublicKey_no_signature)
  next
    case (Inr s)
    with Pair show ?thesis
      by (cases "truthy s") (simp_all add: getPublicKey_recover getPublicKey_falsy)
  qed
qed

lemma setSignature_error:
  "fst (setSignature L name w signature) = Inl e \<longleftrightarrow>
     publicResolver_of L w = Inl e \<or>
     (\<exists>c. publicResolver_of L w = Inr c \<and>
        (namehash L name = Inl e \<or>
         (\<exists>node. namehash L name = Inr node \<and>
            (fst (contract_setText L c node umbraKeySignature signature (provider w)) = Inl e \<or>
             (\<exists>t p1. contract_setText L c node umbraKeySignature signature (provider w) = (Inr t, p1) \<and>
                fst (tx_wait L t p1) = Inl e)))))"
proof (cases "publicResolver_of L w")
  case (Inl e')
  then show ?thesis by (simp add: setSignature_no_contract)
next
  case c: (Inr c)
  show ?thesis
  proof (cases "namehash L name")
    case (Inl e')
    with c show ?thesis by (simp add: setSignature_no_node)
  next
    case n: (Inr node)
    obtain r p1 where s: "contract_setText L c node umbraKeySignature signature (provider w) = (r, p1)"
      by (cases "contract_setText L c node umbraKeySignature signature (provider w)")
    show ?thesis
    proof (cases r)
      case (Inl e')
      with c n s show ?thesis by (simp add: setSignature_write_fails)
    next
      case t: (Inr t)
      obtain r2 p2 where k: "tx_wait L t p1 = (r2, p2)" by (cases "tx_wait L t p1")
      show ?thesis
      proof (cases r2)
        case (Inl e')
        with c n s t k show ?thesis by (simp add: setSignature_wait_fails)
      next
        case (Inr u)
        with c n s t k show ?thesis by (simp add: setSignature_written)
      qed
    qed
  qed
qed

text \<open>
  C7. An error comes out of each exported function exactly when the layer raised it, and it
  is the layer's error itself:
  \<^item> \<open>namehash\<close> fails with \<open>e\<close> if and only if the normalisation of the name, or the hashing
    of the normalised name, raised \<open>e\<close>;
  \<^item> \<open>getSignature\<close> and \<open>getBytecode\<close> fail with \<open>e\<close> if and only if \<open>createContract\<close>,
    \<open>namehash\<close> or the resolver read raised \<open>e\<close>;
  \<^item> \<open>getPublicKey\<close> fails with \<open>e\<close> if and only if \<open>getSignature\<close> failed with \<open>e\<close>, or
    the key-recovery helper raised \<open>e\<close> on the (truthy) signature read;
  \<^item> \<open>setSignature\<close> fails with \<open>e\<close> if and only if \<open>createContract\<close>, \<open>namehash\<close>, the
    resolver write or the wait for its transaction raised \<open>e\<close>.
  So no error is caught (each failure of the layer is the function's failure), and none is
  wrapped, translated or invented (each failure of a function is a failure of the layer).
\<close>

theorem errors_propagate_unchanged:
  "(namehash L name = Inl e \<longleftrightarrow>
      ensNamehash_normalize L name = Inl e \<or>
      (\<exists>n. ensNamehash_normalize L name = Inr n \<and> ensNamehash_hash L n = Inl e))
   \<and> (fst (getSignature L name w) = Inl e \<longleftrightarrow>
      publicResolver_of L w = Inl e \<or>
      (\<exists>c. publicResolver_of L w = Inr c \<and>
         (namehash L name = Inl e \<or>
          (\<exists>node. namehash L name = Inr node \<and>
             fst (contract_text L c node umbraKeySignature (provider w)) = Inl e))))
   \<and> (fst (getBytecode L name w) = Inl e \<longleftrightarrow>
      publicResolver_of L w = Inl e \<or>
      (\<exists>c. publicResolver_of L w = Inr c \<and>
         (namehash L name = Inl e \<or>
          (\<exists>node. namehash L name = Inr node \<and>
             fst (contract_text L c node umbraKeyBytecode (provider w)) = Inl e))))
   \<and> (fst (getPublicKey L name w) = Inl e \<longleftrightarrow>
      fst (getSignature L name w) = Inl e \<or>
      (\<exists>s. fst (getSignature L name w) = Inr s \<and> truthy s \<and>
         getPublicKeyFromSignature L s = Inl e))
   \<and> (fst (setSignature L name w signature) = Inl e \<longleftrightarrow>
      publicResolver_of L w = Inl e \<or>
      (\<exists>c. publicResolver_of L w = Inr c \<and>
         (namehash L name = Inl e \<or>
          (\<exists>node. namehash L name = Inr node \<and>
             (fst (contract_setText L c node umbraKeySignature signature (provider w)) = Inl e \<or>
              (\<exists>t p1. contract_setText L c node umbraKeySignature signature (provider w) = (Inr t, p1) \<and>
                 fst (tx_wait L t p1) = Inl e))))))"
  using namehash_error [of L name e] getSignature_error [of L name w e]
    getBytecode_error [of L name w e] getPublicKey_error [of L name w e]
    setSignature_error [of L name w signature e]
  by (intro conjI) assumption+

lemma sample_normalize_malformed:
  "ensNamehash_normalize sample_layer ''my name.eth'' = Inl (Thrown (JStr ''Illegal char''))"
  by (simp add: sample_defs)

lemma sample_text_offline:
  "contract_text sample_layer c node key (provider offline_world)
     = (Inl unreachable, \<lparr>reachable = False, records = Map.empty\<rparr>)"
  by (simp add: sample_defs resolver_text_def offline_world_def)

theorem errors_propagate_unchanged_witness:
  "ensNamehash_normalize sample_layer ''my name.eth'' = Inl (Thrown (JStr ''Illegal char''))
   \<and> namehash sample_layer ''my name.eth'' = Inl (Thrown (JStr ''Illegal char''))
   \<and> fst (getSignature sample_layer ''my name.eth'' empty_world) = Inl (Thrown (JStr ''Illegal char''))
   \<and> fst (getBytecode sample_layer ''my name.eth'' empty_world) = Inl (Thrown (JStr ''Illegal char''))
   \<and> fst (getPublicKey sample_layer ''my name.eth'' empty_world) = Inl (Thrown (JStr ''Illegal char''))
   \<and> fst (setSignature sample_layer ''my name.eth'' empty_world ''0xabc'')
       = Inl (Thrown (JStr ''Illegal char''))
   \<and> fst (contract_text sample_layer () ''node:myname.eth'' umbraKeySignature (provider offline_world))
       = Inl unreachable
   \<and> fst (getSignature sample_layer ''MyName.ETH'' offline_world) = Inl unreachable
   \<and> fst (getPublicKey sample_layer ''MyName.ETH'' offline_world) = Inl unreachable"
proof -
  let ?e = "Thrown (JStr ''Illegal char'')"
  note p = errors_propagate_unchanged [of sample_layer "''my name.eth''" ?e empty_world "''0xabc''"]
  note c = sample_contract [of empty_world]
  from p sample_normalize_malformed have n: "namehash sample_layer ''my name.eth'' = Inl ?e"
    by blast
  from p c n have g: "fst (getSignature sample_layer ''my name.eth'' empty_world) = Inl ?e"
    by blast
  from p c n have b: "fst (getBytecode sample_layer ''my name.eth'' empty_world) = Inl ?e"
    by blast
  from p g have k: "fst (getPublicKey sample_layer ''my name.eth'' empty_world) = Inl ?e"
    by blast
  from p c n have s: "fst (setSignature sample_layer ''my name.eth'' empty_world ''0xabc'') = Inl ?e"
    by blast
  note q = errors_propagate_unchanged [of sample_layer "''MyName.ETH''" unreachable offline_world "''0xabc''"]
  have t: "fst (contract_text sample_layer () ''node:myname.eth'' umbraKeySignature (provider offline_world))
       = Inl unreachable"
    by (simp add: sample_text_offline)
  from q sample_contract [of offline_world] sample_namehash t
  have g': "fst (getSignature sample_layer ''MyName.ETH'' offline_world) = Inl unreachable"
    by blast
  from q g' have k': "fst (getPublicKey sample_layer ''MyName.ETH'' offline_world) = Inl unreachable"
    by blast
  from sample_normalize_malformed n g b k s t g' k' show ?thesis by simp
qed

lemma reads_simps:
  "reads [] = 0" "reads (TextCall node key # cs) = Suc (reads cs)"
  "reads (SetTextCall node key v # cs) = reads cs" "reads (WaitCall h # cs) = reads cs"
  "reads (RecoverCall s # cs) = reads cs"
  by (simp_all add: reads_def)

lemma writes_simps:
  "writes [] = 0" "writes (TextCall node key # cs) = writes cs"
  "writes (SetTextCall node key v # cs) = Suc (writes cs)" "writes (WaitCall h # cs) = writes cs"
  "writes (RecoverCall s # cs) = writes cs"
  by (simp_all add: writes_def)

lemma reads_append: "reads (xs @ ys) = reads xs + reads ys"
  by (simp add: reads_def)

lemma writes_append: "writes (xs @ ys) = writes xs + writes ys"
  by (simp add: writes_def)

lemma getSignature_counts:
  "reads (issued w (snd (getSignature L name w))) \<le> 1"
  "writes (issued w (snd (getSignature L name w))) = 0"
  by (simp_all add: getSignature_issued reads_simps writes_simps split: sum.splits)

lemma getBytecode_counts:
  "reads (issued w (snd (getBytecode L name w))) \<le> 1"
  "writes (issued w (snd (getBytecode L name w))) = 0"
  by (simp_all add: getBytecode_issued reads_simps writes_simps split: sum.splits)

lemma getPublicKey_counts:
  "reads (issued w (snd (getPublicKey L name w))) = reads (issued w (snd (getSignature L name w)))"
  "writes (issued w (snd (getPublicKey L name w))) = 0"
  by (simp_all add: getPublicKey_issued reads_append writes_append getSignature_counts
      reads_simps writes_simps split: sum.splits)

lemma setSignature_counts:
  "reads (issued w (snd (setSignature L name w signature))) = 0"
  "writes (issued w (snd (setSignature L name w signature))) \<le> 1"
  by (simp_all add: setSignature_issued reads_simps writes_simps split: sum.splits)

lemma counts_on_success:
  assumes "publicResolver_of L w = Inr c" and "namehash L name = Inr node"
  shows "reads (issued w (snd (getSignature L name w))) = 1"
    and "reads (issued w (snd (getBytecode L name w))) = 1"
    and "reads (issued w (snd (getPublicKey L name w))) = 1"
    and "writes (issued w (snd (setSignature L name w signature))) = 1"
  using assms
  by (simp_all add: getPublicKey_counts getSignature_issued getBytecode_issued setSignature_issued
      reads_simps writes_simps split: sum.splits)

lemma results_on_success:
  assumes "publicResolver_of L w = Inr c" and "namehash L name = Inr node"
  shows "fst (getSignature L name w) = fst (contract_text L c node umbraKeySignature (provider w))"
    and "fst (getBytecode L name w) = fst (contract_text L c node umbraKeyBytecode (provider w))"
  using assms
  by (simp_all add: getSignature_def getBytecode_def await_text_def split: prod.splits)

lemma nothing_issued_on_failure:
  assumes "publicResolver_of L w = Inl e \<or> namehash L name = Inl e"
  shows "issued w (snd (getSignature L name w)) = []"
    and "issued w (snd (getBytecode L name w)) = []"
    and "issued w (snd (getPublicKey L name w)) = []"
    and "issued w (snd (setSignature L name w signature)) = []"
proof -
  show g: "issued w (snd (getSignature L name w)) = []"
    using assms by (auto simp add: getSignature_issued split: sum.splits)
  show "issued w (snd (getBytecode L name w)) = []"
    using assms by (auto simp add: getBytecode_issued split: sum.splits)
  show "issued w (snd (setSignature L name w signature)) = []"
    using assms by (auto simp add: setSignature_issued split: sum.splits)
  have "\<exists>e'. fst (getSignature L name w) = Inl e'"
    using assms by (auto simp add: getSignature_def split: sum.splits)
  with g show "issued w (snd (getPublicKey L name w)) = []"
    by (auto simp add: getPublicKey_issued)
qed

text \<open>
  C8 (as amended). For every layer and every input:
  \<^item> \<open>getSignature\<close>, \<open>getBytecode\<close> and \<open>getPublicKey\<close> issue at most one resolver read and
    no resolver write; \<open>setSignature\<close> issues at most one resolver write and no resolver read
    (\<open>namehash\<close> takes no provider and issues nothing);
  \<^item> when \<open>createContract\<close> and \<open>namehash\<close> succeed, the three readers issue exactly one
    read and \<open>setSignature\<close> exactly one write, and what \<open>getSignature\<close> and \<open>getBytecode\<close>
    return is the awaited result of that read;
  \<^item> when \<open>createContract\<close> or \<open>namehash\<close> raises, none of the four issues any call;
  \<^item> when \<open>setSignature\<close> returns a hash, the wait for the transaction of its write is the
    last call it issued.
\<close>

theorem at_most_one_resolver_call:
  "reads (issued w (snd (getSignature L name w))) \<le> 1
   \<and> writes (issued w (snd (getSignature L name w))) = 0
   \<and> reads (issued w (snd (getBytecode L name w))) \<le> 1
   \<and> writes (issued w (snd (getBytecode L name w))) = 0
   \<and> reads (issued w (snd (getPublicKey L name w))) \<le> 1
   \<and> writes (issued w (snd (getPublicKey L name w))) = 0
   \<and> reads (issued w (snd (setSignature L name w signature))) = 0
   \<and> writes (issued w (snd (setSignature L name w signature))) \<le> 1
   \<and> (publicResolver_of L w = Inr c \<and> namehash L name = Inr node \<longrightarrow>
        reads (issued w (snd (getSignature L name w))) = 1
        \<and> reads (issued w (snd (getBytecode L name w))) = 1
        \<and> reads (issued w (snd (getPublicKey L name w))) = 1
        \<and> writes (issued w (snd (setSignature L name w signature))) = 1
        \<and> fst (getSignature L name w) = fst (contract_text L c node umbraKeySignature (provider w))
        \<and> fst (getBytecode L name w) = fst (contract_text L c node umbraKeyBytecode (provider w)))
   \<and> (publicResolver_of L w = Inl e \<or> namehash L name = Inl e \<longrightarrow>
        issued w (snd (getSignature L name w)) = []
        \<and> issued w (snd (getBytecode L name w)) = []
        \<and> issued w (snd (getPublicKey L name w)) = []
        \<and> issued w (snd (setSignature L name w signature)) = [])
   \<and> (fst (setSignature L name w signature) = Inr h \<longrightarrow>
        (\<exists>node. issued w (snd (setSignature L name w signature))
           = [SetTextCall node umbraKeySignature signature, WaitCall h]))"
proof -
  have k: "reads (issued w (snd (getPublicKey L name w))) \<le> 1"
    using getSignature_counts(1) [of w L name] by (simp add: getPublicKey_counts(1))
  have s: "publicResolver_of L w = Inr c \<and> namehash L name = Inr node \<longrightarrow>
        reads (issued w (snd (getSignature L name w))) = 1
        \<and> reads (issued w (snd (getBytecode L name w))) = 1
        \<and> reads (issued w (snd (getPublicKey L name w))) = 1
        \<and> writes (issued w (snd (setSignature L name w signature))) = 1
        \<and> fst (getSignature L name w) = fst (contract_text L c node umbraKeySignature (provider w))
        \<and> fst (getBytecode L name w) = fst (contract_text L c node umbraKeyBytecode (provider w))"
    using counts_on_success [of L w c name node] results_on_success [of L w c name node]
    by blast
  have f: "publicResolver_of L w = Inl e \<or> namehash L name = Inl e \<longrightarrow>
        issued w (snd (getSignature L name w)) = []
        \<and> issued w (snd (getBytecode L name w)) = []
        \<and> issued w (snd (getPublicKey L name w)) = []
        \<and> issued w (snd (setSignature L name w signature)) = []"
    using nothing_issued_on_failure [of L w e name] by blast
  have r: "fst (setSignature L name w signature) = Inr h \<longrightarrow>
        (\<exists>node. issued w (snd (setSignature L name w signature))
           = [SetTextCall node umbraKeySignature signature, WaitCall h])"
    using setSignature_returned [of L name w signature h] by blast
  from k s f r getSignature_counts [of w L name] getBytecode_counts [of w L name]
    getPublicKey_counts(2) [of w L name] setSignature_counts [of w L name signature]
  show ?thesis by (intro conjI) assumption+
qed

lemma sample_getSignature_malformed:
  "getSignature sample_layer ''my name.eth'' empty_world
     = (Inl (Thrown (JStr ''Illegal char'')), empty_world)"
  by (rule getSignature_no_node [OF sample_contract sample_namehash_malformed])

lemma sample_setSignature_malformed:
  "setSignature sample_layer ''my name.eth'' empty_world v
     = (Inl (Thrown (JStr ''Illegal char'')), empty_world)"
  by (rule setSignature_no_node [OF sample_contract sample_namehash_malformed])

theorem exactly_one_call_counterexample:
  "fst (getSignature sample_layer ''my name.eth'' empty_world) = Inl (Thrown (JStr ''Illegal char''))
   \<and> reads (issued empty_world (snd (getSignature sample_layer ''my name.eth'' empty_world))) = 0
   \<and> reads (issued empty_world (snd (getSignature sample_layer ''my name.eth'' empty_world))) \<noteq> 1
   \<and> writes (issued empty_world (snd (setSignature sample_layer ''my name.eth'' empty_world ''0xabc''))) = 0
   \<and> writes (issued empty_world (snd (setSignature sample_layer ''my name.eth'' empty_world ''0xabc''))) \<noteq> 1"
  by (simp add: sample_getSignature_malformed sample_setSignature_malformed issued_same reads_simps
      writes_simps)

theorem at_most_one_resolver_call_witness:
  "publicResolver_of sample_layer empty_world = Inr ()
   \<and> namehash sample_layer ''MyName.ETH'' = Inr ''node:myname.eth''
   \<and> reads (issued empty_world (snd (getSignature sample_layer ''MyName.ETH'' empty_world))) = 1
   \<and> reads (issued empty_world (snd (getBytecode sample_layer ''MyName.ETH'' empty_world))) = 1
   \<and> reads (issued empty_world (snd (getPublicKey sample_layer ''MyName.ETH'' empty_world))) = 1
   \<and> writes (issued empty_world (snd (setSignature sample_layer ''MyName.ETH'' empty_world ''0xabc''))) = 1
   \<and> namehash sample_layer ''my name.eth'' = Inl (Thrown (JStr ''Illegal char''))
   \<and> issued empty_world (snd (getPublicKey sample_layer ''my name.eth'' empty_world)) = []
   \<and> fst (setSignature sample_layer ''MyName.ETH'' empty_world ''0xabc'') = Inr ''tx:node:myname.eth''
   \<and> (\<exists>node. issued empty_world (snd (setSignature sample_layer ''MyName.ETH'' empty_world ''0xabc''))
         = [SetTextCall node umbraKeySignature ''0xabc'', WaitCall ''tx:node:myname.eth''])"
proof -
  note a = at_most_one_resolver_call [of empty_world sample_layer "''MyName.ETH''" "''0xabc''" "()"
      "''node:myname.eth''" _ "''tx:node:myname.eth''"]
  note b = at_most_one_resolver_call [of empty_world sample_layer "''my name.eth''" "''0xabc''" _ _
      "Thrown (JStr ''Illegal char'')"]
  have h: "fst (setSignature sample_layer ''MyName.ETH'' empty_world ''0xabc'') = Inr ''tx:node:myname.eth''"
    by (simp add: sample_setSignature)
  from a sample_contract [of empty_world] sample_namehash have 1:
    "reads (issued empty_world (snd (getSignature sample_layer ''MyName.ETH'' empty_world))) = 1
     \<and> reads (issued empty_world (snd (getBytecode sample_layer ''MyName.ETH'' empty_world))) = 1
     \<and> reads (issued empty_world (snd (getPublicKey sample_layer ''MyName.ETH'' empty_world))) = 1
     \<and> writes (issued empty_world (snd (setSignature sample_layer ''MyName.ETH'' empty_world ''0xabc''))) = 1"
    by blast
  from a h have 2:
    "\<exists>node. issued empty_world (snd (setSignature sample_layer ''MyName.ETH'' empty_world ''0xabc''))
         = [SetTextCall node umbraKeySignature ''0xabc'', WaitCall ''tx:node:myname.eth'']"
    by blast
  from b sample_namehash_malformed have 3:
    "issued empty_world (snd (getPublicKey sample_layer ''my name.eth'' empty_world)) = []"
    by blast
  from 1 2 3 h sample_contract [of empty_world] sample_namehash sample_namehash_malformed
  show ?thesis by (intro conjI) (assumption | erule conjunct1 | blast)+
qed

lemma getPublicKey_undefined:
  "fst (getPublicKey L name w) = Inr JUndefined \<longleftrightarrow>
     (\<exists>s. fst (getSignature L name w) = Inr s \<and>
        (\<not> truthy s \<or> getPublicKeyFromSignature L s = Inr JUndefined))"
proof (cases "getSignature L name w")
  case (Pair r w')
  show ?thesis
  proof (cases r)
    case (Inl e)
    with Pair show ?thesis by (simp add: getPublicKey_no_signature)
  next
    case (Inr s)
    with Pair show ?thesis
      by (cases "truthy s") (simp_all add: getPublicKey_recover getPublicKey_falsy)
  qed
qed

lemma getPublicKey_of_truthy:
  "fst (getSignature L name w) = Inr s \<Longrightarrow> truthy s \<Longrightarrow>
   fst (getPublicKey L name w) = getPublicKeyFromSignature L s"
  by (cases "getSignature L name w") (simp add: getPublicKey_recover)

lemma getPublicKey_of_falsy:
  "fst (getSignature L name w) = Inr s \<Longrightarrow> \<not> truthy s \<Longrightarrow>
   fst (getPublicKey L name w) = Inr JUndefined"
  by (cases "getSignature L name w") (simp add: getPublicKey_falsy)

text \<open>The sample resolver after \<open>setSignature\<close> has stored a signature for \<open>MyName.ETH\<close>.\<close>

lemma sample_fields:
  "ensNamehash_normalize sample_layer = sample_normalize"
  "ensNamehash_hash sample_layer = sample_hash"
  "contract_text sample_layer = resolver_text"
  "contract_setText sample_layer = resolver_setText sample_txh"
  "tx_wait sample_layer = resolver_wait"
  "getPublicKeyFromSignature sample_layer = sample_recover"
  by (simp_all add: sample_layer_def resolver_layer_def)

lemma sample_text_stored:
  "contract_text sample_layer c ''node:myname.eth'' umbraKeySignature
     (provider (snd (setSignature sample_layer ''MyName.ETH'' empty_world v)))
   = (Inr (JStr v),
      \<lparr>reachable = True, records = [(''node:myname.eth'', ''vnd.umbra-v0-signature'') \<mapsto> v]\<rparr>)"
  by (simp add: sample_setSignature sample_fields resolver_text_def umbraKeySignature_def)

lemma sample_getSignature_stored:
  "fst (getSignature sample_layer ''MyName.ETH''
          (snd (setSignature sample_layer ''MyName.ETH'' empty_world v))) = Inr (JStr v)"
  using getSignature_read [OF sample_contract sample_namehash sample_text_stored]
  by simp

text \<open>
  C2 (as amended). \<open>getPublicKey\<close> returns \<open>undefined\<close> exactly when \<open>getSignature\<close> returns
  a value that is falsy (\<open>undefined\<close>, \<open>null\<close>, \<open>false\<close>, \<open>0\<close> or the empty string) or
  one for which the key-recovery helper itself answers \<open>undefined\<close>; when \<open>getSignature\<close>
  returns a truthy value, \<open>getPublicKey\<close> returns what \<open>getPublicKeyFromSignature\<close> makes of
  that value; when it returns a falsy one, \<open>getPublicKey\<close> returns \<open>undefined\<close>.
\<close>

theorem getPublicKey_from_signature:
  "(fst (getPublicKey L name w) = Inr JUndefined \<longleftrightarrow>
      (\<exists>s. fst (getSignature L name w) = Inr s \<and>
         (\<not> truthy s \<or> getPublicKeyFromSignature L s = Inr JUndefined)))
   \<and> (fst (getSignature L name w) = Inr s \<and> truthy s \<longrightarrow>
        fst (getPublicKey L name w) = getPublicKeyFromSignature L s)
   \<and> (fst (getSignature L name w) = Inr s \<and> \<not> truthy s \<longrightarrow>
        fst (getPublicKey L name w) = Inr JUndefined)"
  using getPublicKey_undefined [of L name w] getPublicKey_of_truthy [of L name w s]
    getPublicKey_of_falsy [of L name w s]
  by blast

theorem getPublicKey_from_signature_witness:
  "fst (getSignature sample_layer ''MyName.ETH''
          (snd (setSignature sample_layer ''MyName.ETH'' empty_world ''0xabc''))) = Inr (JStr ''0xabc'')
   \<and> truthy (JStr ''0xabc'')
   \<and> fst (getPublicKey sample_layer ''MyName.ETH''
          (snd (setSignature sample_layer ''MyName.ETH'' empty_world ''0xabc''))) = Inr (JStr ''key:0xabc'')
   \<and> fst (getSignature sample_layer ''MyName.ETH'' empty_world) = Inr JUndefined
   \<and> fst (getPublicKey sample_layer ''MyName.ETH'' empty_world) = Inr JUndefined"
proof -
  let ?w = "snd (setSignature sample_layer ''MyName.ETH'' empty_world ''0xabc'')"
  have g: "fst (getSignature sample_layer ''MyName.ETH'' ?w) = Inr (JStr ''0xabc'')"
    by (rule sample_getSignature_stored)
  have t: "truthy (JStr ''0xabc'')" by simp
  have r: "getPublicKeyFromSignature sample_layer (JStr ''0xabc'') = Inr (JStr ''key:0xabc'')"
    by (simp add: sample_defs)
  from getPublicKey_from_signature [of sample_layer "''MyName.ETH''" ?w "JStr ''0xabc''"] g t r
  have k: "fst (getPublicKey sample_layer ''MyName.ETH'' ?w) = Inr (JStr ''key:0xabc'')"
    by simp
  have g0: "fst (getSignature sample_layer ''MyName.ETH'' empty_world) = Inr JUndefined"
    by (simp add: sample_getSignature)
  from getPublicKey_from_signature [of sample_layer "''MyName.ETH''" empty_world JUndefined] g0
  have k0: "fst (getPublicKey sample_layer ''MyName.ETH'' empty_world) = Inr JUndefined"
    by simp
  from g t k g0 k0 show ?thesis by (intro conjI)
qed

theorem getPublicKey_absent_iff_counterexample:
  "fst (getSignature sample_layer ''MyName.ETH''
          (snd (setSignature sample_layer ''MyName.ETH'' empty_world ''''))) = Inr (JStr '''')
   \<and> fst (getPublicKey sample_layer ''MyName.ETH''
          (snd (setSignature sample_layer ''MyName.ETH'' empty_world ''''))) = Inr JUndefined
   \<and> getPublicKeyFromSignature sample_layer (JStr '''') = Inl (Thrown (JStr ''invalid signature''))
   \<and> \<not> (fst (getPublicKey sample_layer ''MyName.ETH''
            (snd (setSignature sample_layer ''MyName.ETH'' empty_world ''''))) = Inr JUndefined
        \<longleftrightarrow> fst (getSignature sample_layer ''MyName.ETH''
            (snd (setSignature sample_layer ''MyName.ETH'' empty_world ''''))) = Inr JUndefined)"
proof -
  let ?w = "snd (setSignature sample_layer ''MyName.ETH'' empty_world '''')"
  have g: "fst (getSignature sample_layer ''MyName.ETH'' ?w) = Inr (JStr '''')"
    by (rule sample_getSignature_stored)
  then have k: "fst (getPublicKey sample_layer ''MyName.ETH'' ?w) = Inr JUndefined"
    by (rule getPublicKey_of_falsy) simp
  have r: "getPublicKeyFromSignature sample_layer (JStr '''') = Inl (Thrown (JStr ''invalid signature''))"
    by (simp add: sample_defs)
  from g k r show ?thesis by simp
qed

text \<open>
  C9. When the resolver read of the signature record answers with a falsy value \<open>s\<close> (the
  empty string, \<open>undefined\<close>, \<open>null\<close>, \<open>false\<close> or \<open>0\<close>), \<open>getSignature\<close> returns \<open>s\<close>
  as it is, while \<open>getPublicKey\<close> returns \<open>undefined\<close>; the only call \<open>getPublicKey\<close> has
  issued is that read, so the key-recovery helper has not been invoked.
\<close>

theorem getPublicKey_falsy_signature:
  assumes "publicResolver_of L w = Inr c"
    and "namehash L name = Inr node"
    and "contract_text L c node umbraKeySignature (provider w) = (Inr s, p')"
    and "\<not> truthy s"
  shows "getSignature L name w
           = (Inr s, \<lparr>provider = p', trace = trace w @ [TextCall node umbraKeySignature]\<rparr>)
         \<and> getPublicKey L name w
           = (Inr JUndefined, \<lparr>provider = p', trace = trace w @ [TextCall node umbraKeySignature]\<rparr>)
         \<and> issued w (snd (getPublicKey L name w)) = [TextCall node umbraKeySignature]
         \<and> (\<forall>v. RecoverCall v \<notin> set (issued w (snd (getPublicKey L name w))))"
proof -
  from assms(1-3) have g: "getSignature L name w
      = (Inr s, \<lparr>provider = p', trace = trace w @ [TextCall node umbraKeySignature]\<rparr>)"
    by (rule getSignature_read)
  from g assms(4) have k: "getPublicKey L name w
      = (Inr JUndefined, \<lparr>provider = p', trace = trace w @ [TextCall node umbraKeySignature]\<rparr>)"
    by (rule getPublicKey_falsy)
  then have i: "issued w (snd (getPublicKey L name w)) = [TextCall node umbraKeySignature]"
    by (simp add: issued_def)
  from g k i show ?thesis by simp
qed

theorem getPublicKey_falsy_signature_witness:
  "publicResolver_of sample_layer (snd (setSignature sample_layer ''MyName.ETH'' empty_world '''')) = Inr ()
   \<and> namehash sample_layer ''MyName.ETH'' = Inr ''node:myname.eth''
   \<and> \<not> truthy (JStr '''')
   \<and> fst (getSignature sample_layer ''MyName.ETH''
            (snd (setSignature sample_layer ''MyName.ETH'' empty_world ''''))) = Inr (JStr '''')
   \<and> fst (getPublicKey sample_layer ''MyName.ETH''
            (snd (setSignature sample_layer ''MyName.ETH'' empty_world ''''))) = Inr JUndefined
   \<and> issued (snd (setSignature sample_layer ''MyName.ETH'' empty_world ''''))
        (snd (getPublicKey sample_layer ''MyName.ETH''
            (snd (setSignature sample_layer ''MyName.ETH'' empty_world ''''))))
       = [TextCall ''node:myname.eth'' ''vnd.umbra-v0-signature'']"
proof -
  let ?w = "snd (setSignature sample_layer ''MyName.ETH'' empty_world '''')"
  have f: "\<not> truthy (JStr '''')" by simp
  note t = getPublicKey_falsy_signature [OF sample_contract sample_namehash sample_text_stored f]
  from t have g: "fst (getSignature sample_layer ''MyName.ETH'' ?w) = Inr (JStr '''')" by simp
  from t have k: "fst (getPublicKey sample_layer ''MyName.ETH'' ?w) = Inr JUndefined" by simp
  from t [THEN conjunct2, THEN conjunct2, THEN conjunct1]
  have i: "issued ?w (snd (getPublicKey sample_layer ''MyName.ETH'' ?w))
       = [TextCall ''node:myname.eth'' ''vnd.umbra-v0-signature'']"
    by (simp only: umbraKeySignature_def)
  from sample_contract [of ?w] sample_namehash f g k i show ?thesis by (intro conjI)
qed

section \<open>Over the resolver of text records\<close>

lemma resolver_fields:
  "ensNamehash_normalize (resolver_layer norm hsh addr recover txh) = norm"
  "ensNamehash_hash (resolver_layer norm hsh addr recover txh) = hsh"
  "contract_text (resolver_layer norm hsh addr recover txh) = resolver_text"
  "contract_setText (resolver_layer norm hsh addr recover txh) = resolver_setText txh"
  "tx_wait (resolver_layer norm hsh addr recover txh) = resolver_wait"
  "getPublicKeyFromSignature (resolver_layer norm hsh addr recover txh) = recover"
  by (simp_all add: resolver_layer_def)

lemma resolver_contract:
  "publicResolver_of (resolver_layer norm hsh addr recover txh) w = Inr ()"
  by (simp add: resolver_layer_def)

lemma keys_differ: "umbraKeySignature \<noteq> umbraKeyBytecode"
  by (simp add: umbraKeySignature_def umbraKeyBytecode_def)

text \<open>What a read returns is decided by the provider's state alone.\<close>

lemma resolver_getSignature_value:
  "namehash (resolver_layer norm hsh addr recover txh) name = Inr node \<Longrightarrow>
   fst (getSignature (resolver_layer norm hsh addr recover txh) name w) =
     fst (resolver_text () node umbraKeySignature (provider w))"
  using results_on_success(1) [OF resolver_contract, of norm hsh addr recover txh name node w]
  by (simp add: resolver_fields)

lemma resolver_getBytecode_value:
  "namehash (resolver_layer norm hsh addr recover txh) name = Inr node \<Longrightarrow>
   fst (getBytecode (resolver_layer norm hsh addr recover txh) name w) =
     fst (resolver_text () node umbraKeyBytecode (provider w))"
  using results_on_success(2) [OF resolver_contract, of norm hsh addr recover txh name node w]
  by (simp add: resolver_fields)

lemma resolver_getBytecode_malformed:
  "namehash (resolver_layer norm hsh addr recover txh) name = Inl e \<Longrightarrow>
   fst (getBytecode (resolver_layer norm hsh addr recover txh) name w) = Inl e"
  by (simp add: getBytecode_no_node [OF resolver_contract])

text \<open>The provider after \<open>setSignature\<close>: unchanged, or with the one signature record stored.\<close>

lemma resolver_setSignature_provider:
  "provider (snd (setSignature (resolver_layer norm hsh addr recover txh) name w signature)) =
     (case namehash (resolver_layer norm hsh addr recover txh) name of
        Inl e \<Rightarrow> provider w
      | Inr node \<Rightarrow>
          if reachable (provider w)
          then (provider w)\<lparr>records := (records (provider w))((node, umbraKeySignature) \<mapsto> signature)\<rparr>
          else provider w)"
proof (cases "namehash (resolver_layer norm hsh addr recover txh) name")
  case (Inl e)
  then show ?thesis by (simp add: setSignature_no_node [OF resolver_contract])
next
  case (Inr node)
  show ?thesis
  proof (cases "reachable (provider w)")
    case True
    let ?p = "(provider w)\<lparr>records := (records (provider w))((node, umbraKeySignature) \<mapsto> signature)\<rparr>"
    have s: "contract_setText (resolver_layer norm hsh addr recover txh) () node umbraKeySignature
               signature (provider w) = (Inr \<lparr>hash = txh node umbraKeySignature signature\<rparr>, ?p)"
      using True by (simp add: resolver_fields resolver_setText_def)
    have k: "tx_wait (resolver_layer norm hsh addr recover txh)
               \<lparr>hash = txh node umbraKeySignature signature\<rparr> ?p = (Inr (), ?p)"
      using True by (simp add: resolver_fields resolver_wait_def)
    from setSignature_written [OF resolver_contract Inr s k] Inr True show ?thesis by simp
  next
    case False
    have s: "contract_setText (resolver_layer norm hsh addr recover txh) () node umbraKeySignature
               signature (provider w) = (Inl unreachable, provider w)"
      using False by (simp add: resolver_fields resolver_setText_def)
    from setSignature_write_fails [OF resolver_contract Inr s] Inr False show ?thesis by simp
  qed
qed

text \<open>
  C1. Over the resolver of text records: when \<open>setSignature\<close> for a domain has returned (a
  transaction hash), \<open>getSignature\<close> for the same domain, run on the state \<open>setSignature\<close>
  left, returns the signature that was set.
\<close>

theorem setSignature_then_getSignature:
  assumes "setSignature (resolver_layer norm hsh addr recover txh) name w signature = (Inr h, w')"
  shows "fst (getSignature (resolver_layer norm hsh addr recover txh) name w') = Inr (JStr signature)"
proof -
  let ?R = "resolver_layer norm hsh addr recover txh"
  from assms have "fst (setSignature ?R name w signature) = Inr h" by simp
  from setSignature_returned [OF this] obtain c node t p1 p2 where
    n: "namehash ?R name = Inr node" and
    s: "contract_setText ?R c node umbraKeySignature signature (provider w) = (Inr t, p1)"
    by blast
  from s have r: "reachable (provider w)"
    by (simp add: resolver_fields resolver_setText_def split: if_splits)
  from assms have "provider w' = provider (snd (setSignature ?R name w signature))" by simp
  with n r have "provider w'
      = (provider w)\<lparr>records := (records (provider w))((node, umbraKeySignature) \<mapsto> signature)\<rparr>"
    by (simp add: resolver_setSignature_provider)
  with r have "fst (resolver_text () node umbraKeySignature (provider w')) = Inr (JStr signature)"
    by (simp add: resolver_text_def)
  with n show ?thesis by (simp add: resolver_getSignature_value)
qed

theorem setSignature_then_getSignature_witness:
  "setSignature sample_layer ''MyName.ETH'' empty_world ''0xabc''
     = (Inr ''tx:node:myname.eth'',
        \<lparr>provider = \<lparr>reachable = True,
           records = [(''node:myname.eth'', ''vnd.umbra-v0-signature'') \<mapsto> ''0xabc'']\<rparr>,
         trace = [SetTextCall ''node:myname.eth'' ''vnd.umbra-v0-signature'' ''0xabc'',
                  WaitCall ''tx:node:myname.eth'']\<rparr>)
   \<and> fst (getSignature sample_layer ''MyName.ETH''
        \<lparr>provider = \<lparr>reachable = True,
           records = [(''node:myname.eth'', ''vnd.umbra-v0-signature'') \<mapsto> ''0xabc'']\<rparr>,
         trace = [SetTextCall ''node:myname.eth'' ''vnd.umbra-v0-signature'' ''0xabc'',
                  WaitCall ''tx:node:myname.eth'']\<rparr>) = Inr (JStr ''0xabc'')"
proof -
  note s = sample_setSignature [of "''0xabc''"]
  from setSignature_then_getSignature [OF s [unfolded sample_layer_def]] s
  show ?thesis by (simp only: sample_layer_def [symmetric] simp_thms)
qed

text \<open>
  C3. Over the resolver of text records, while the resolver is reachable: for a domain name
  that hashes to an identifier under which no signature record is stored, \<open>getSignature\<close>
  and \<open>getPublicKey\<close> return \<open>undefined\<close>, and for one under which no bytecode record is
  stored, \<open>getBytecode\<close> returns \<open>undefined\<close>: a result, not an error.
\<close>

theorem absent_record_is_undefined:
  assumes "reachable (provider w)"
    and "namehash (resolver_layer norm hsh addr recover txh) name = Inr node"
  shows "(records (provider w) (node, umbraKeySignature) = None \<longrightarrow>
            fst (getSignature (resolver_layer norm hsh addr recover txh) name w) = Inr JUndefined
            \<and> fst (getPublicKey (resolver_layer norm hsh addr recover txh) name w) = Inr JUndefined)
         \<and> (records (provider w) (node, umbraKeyBytecode) = None \<longrightarrow>
            fst (getBytecode (resolver_layer norm hsh addr recover txh) name w) = Inr JUndefined)"
proof (intro conjI impI)
  assume "records (provider w) (node, umbraKeySignature) = None"
  with assms show g: "fst (getSignature (resolver_layer norm hsh addr recover txh) name w) = Inr JUndefined"
    by (simp add: resolver_getSignature_value resolver_text_def)
  then show "fst (getPublicKey (resolver_layer norm hsh addr recover txh) name w) = Inr JUndefined"
    by (rule getPublicKey_of_falsy) simp
next
  assume "records (provider w) (node, umbraKeyBytecode) = None"
  with assms show "fst (getBytecode (resolver_layer norm hsh addr recover txh) name w) = Inr JUndefined"
    by (simp add: resolver_getBytecode_value resolver_text_def)
qed

theorem absent_record_is_undefined_witness:
  "reachable (provider empty_world)
   \<and> namehash sample_layer ''MyName.ETH'' = Inr ''node:myname.eth''
   \<and> records (provider empty_world) (''node:myname.eth'', umbraKeySignature) = None
   \<and> records (provider empty_world) (''node:myname.eth'', umbraKeyBytecode) = None
   \<and> fst (getSignature sample_layer ''MyName.ETH'' empty_world) = Inr JUndefined
   \<and> fst (getPublicKey sample_layer ''MyName.ETH'' empty_world) = Inr JUndefined
   \<and> fst (getBytecode sample_layer ''MyName.ETH'' empty_world) = Inr JUndefined"
proof -
  have r: "reachable (provider empty_world)" by (simp add: empty_world_def)
  have s: "records (provider empty_world) (''node:myname.eth'', umbraKeySignature) = None"
    by (simp add: empty_world_def)
  have b: "records (provider empty_world) (''node:myname.eth'', umbraKeyBytecode) = None"
    by (simp add: empty_world_def)
  note a = absent_record_is_undefined [OF r sample_namehash [unfolded sample_layer_def],
      folded sample_layer_def]
  from a s have 1: "fst (getSignature sample_layer ''MyName.ETH'' empty_world) = Inr JUndefined
     \<and> fst (getPublicKey sample_layer ''MyName.ETH'' empty_world) = Inr JUndefined"
    by blast
  from a b have 2: "fst (getBytecode sample_layer ''MyName.ETH'' empty_world) = Inr JUndefined"
    by blast
  from r sample_namehash s b 1 2 show ?thesis by blast
qed

text \<open>
  C10. Over the resolver of text records: the value \<open>getBytecode\<close> returns for any domain is
  the same before and after a call of \<open>setSignature\<close> for any domain and signature, whether
  that call succeeds or fails; no record under the key \<open>vnd.umbra-v0-bytecode\<close> is changed
  by it, and no write under that key is among the calls it issues.
\<close>

theorem setSignature_keeps_bytecode:
  "fst (getBytecode (resolver_layer norm hsh addr recover txh) d
          (snd (setSignature (resolver_layer norm hsh addr recover txh) name w signature)))
     = fst (getBytecode (resolver_layer norm hsh addr recover txh) d w)
   \<and> (\<forall>n. records (provider (snd (setSignature (resolver_layer norm hsh addr recover txh) name w signature)))
            (n, umbraKeyBytecode)
          = records (provider w) (n, umbraKeyBytecode))
   \<and> (\<forall>n v. SetTextCall n umbraKeyBytecode v
          \<notin> set (issued w (snd (setSignature (resolver_layer norm hsh addr recover txh) name w signature))))"
proof -
  let ?R = "resolver_layer norm hsh addr recover txh"
  let ?w' = "snd (setSignature ?R name w signature)"
  have recs: "records (provider ?w') (n, umbraKeyBytecode) = records (provider w) (n, umbraKeyBytecode)" for n
    using keys_differ by (simp add: resolver_setSignature_provider split: sum.splits)
  have rch: "reachable (provider ?w') = reachable (provider w)"
    by (simp add: resolver_setSignature_provider split: sum.splits)
  have rd: "fst (resolver_text () n umbraKeyBytecode (provider ?w'))
               = fst (resolver_text () n umbraKeyBytecode (provider w))" for n
    by (simp add: resolver_text_def recs rch split: option.splits)
  have byt: "fst (getBytecode ?R d ?w') = fst (getBytecode ?R d w)"
  proof (cases "namehash ?R d")
    case (Inl e)
    then show ?thesis by (simp add: resolver_getBytecode_malformed)
  next
    case (Inr n)
    then show ?thesis by (simp add: resolver_getBytecode_value rd)
  qed
  have wr: "SetTextCall n umbraKeyBytecode v \<notin> set (issued w ?w')" for n v
    using keys_differ by (auto simp add: setSignature_issued split: sum.splits)
  from byt recs wr show ?thesis by blast
qed

theorem setSignature_keeps_bytecode_witness:
  "fst (getBytecode sample_layer ''MyName.ETH''
          (snd (setSignature sample_layer ''MyName.ETH'' empty_world ''0xabc'')))
     = fst (getBytecode sample_layer ''MyName.ETH'' empty_world)
   \<and> fst (getBytecode sample_layer ''MyName.ETH'' empty_world) = Inr JUndefined
   \<and> records (provider (snd (setSignature sample_layer ''MyName.ETH'' empty_world ''0xabc'')))
        (''node:myname.eth'', umbraKeySignature) = Some ''0xabc''
   \<and> records (provider (snd (setSignature sample_layer ''MyName.ETH'' empty_world ''0xabc'')))
        (''node:myname.eth'', umbraKeyBytecode) = None"
proof -
  note k = setSignature_keeps_bytecode [of sample_normalize sample_hash "''0xresolver''"
      sample_recover sample_txh "''MyName.ETH''" "''MyName.ETH''" empty_world "''0xabc''",
      folded sample_layer_def]
  from k have 1: "fst (getBytecode sample_layer ''MyName.ETH''
          (snd (setSignature sample_layer ''MyName.ETH'' empty_world ''0xabc'')))
     = fst (getBytecode sample_layer ''MyName.ETH'' empty_world)"
    by (rule conjunct1)
  have 2: "fst (getBytecode sample_layer ''MyName.ETH'' empty_world) = Inr JUndefined"
    by (simp add: sample_getBytecode)
  have 3: "records (provider (snd (setSignature sample_layer ''MyName.ETH'' empty_world ''0xabc'')))
        (''node:myname.eth'', umbraKeySignature) = Some ''0xabc''"
    by (simp add: sample_setSignature umbraKeySignature_def)
  from k have "records (provider (snd (setSignature sample_layer ''MyName.ETH'' empty_world ''0xabc'')))
        (''node:myname.eth'', umbraKeyBytecode)
      = records (provider empty_world) (''node:myname.eth'', umbraKeyBytecode)"
    by blast
  then have 4: "records (provider (snd (setSignature sample_layer ''MyName.ETH'' empty_world ''0xabc'')))
        (''node:myname.eth'', umbraKeyBytecode) = None"
    by (simp add: empty_world_def)
  from 1 2 3 4 show ?thesis by (intro conjI)
qed

end
